theory Spec2Isabelle
  imports Complex_Main
begin

section \<open>JavaScript strings\<close>

text \<open>
  Strings are HOL strings, a character read as one code unit in the range 0..255.
  That is exactly what the Fetch API hands out for a header value (a byte string);
  cookie values and JSON strings with code units above 255 are outside the model.
\<close>

definition startsWith :: "string \<Rightarrow> string \<Rightarrow> bool" where
  "startsWith s p = (take (length p) s = p)"

fun includes_str :: "string \<Rightarrow> string \<Rightarrow> bool" where
  "includes_str [] p = (p = [])"
| "includes_str (c # cs) p = (startsWith (c # cs) p \<or> includes_str cs p)"

text \<open>White space and line terminators of ECMAScript that fit in one byte:
  TAB, LF, VT, FF, CR, SP and NBSP.\<close>

definition js_space :: "char \<Rightarrow> bool" where
  "js_space c = ((of_char c :: nat) \<in> {9, 10, 11, 12, 13, 32, 160})"

definition trim :: "string \<Rightarrow> string" where
  "trim s = rev (dropWhile js_space (rev (dropWhile js_space s)))"

text \<open>\<open>toLowerCase\<close> on the Latin-1 range: A..Z and the accented capitals
  0xC0..0xDE (without the multiplication sign 0xD7) move up by 32.\<close>

definition lower_char :: "char \<Rightarrow> char" where
  "lower_char c =
     (let n = (of_char c :: nat)
      in if (65 \<le> n \<and> n \<le> 90) \<or> (192 \<le> n \<and> n \<le> 214) \<or> (216 \<le> n \<and> n \<le> 222)
         then char_of (n + 32) else c)"

definition toLowerCase :: "string \<Rightarrow> string" where
  "toLowerCase s = map lower_char s"

text \<open>The class \<open>\w\<close> of a regular expression: letters, digits and the underscore.\<close>

definition word_char :: "char \<Rightarrow> bool" where
  "word_char c =
     (let n = (of_char c :: nat)
      in (48 \<le> n \<and> n \<le> 57) \<or> (65 \<le> n \<and> n \<le> 90) \<or> n = 95 \<or> (97 \<le> n \<and> n \<le> 122))"

text \<open>
  \<^verbatim>\<open>cookieHeader.match(/\buser_role=([^;]+)/)\<close>, returning the capture group of the
  leftmost match. The first argument says whether the character before the current
  position is a word character: \<^verbatim>\<open>\b\<close> before the letter \<open>u\<close> needs it not to be.
  The group is greedy and needs one character at least.
\<close>

fun match_user_role :: "bool \<Rightarrow> string \<Rightarrow> string option" where
  "match_user_role prev [] = None"
| "match_user_role prev (c # cs) =
     (let capture = takeWhile (\<lambda>x. x \<noteq> CHR '';'') (drop (length ''user_role='') (c # cs))
      in if \<not> prev \<and> startsWith (c # cs) ''user_role='' \<and> capture \<noteq> []
         then Some capture
         else match_user_role (word_char c) cs)"

section \<open>JavaScript values\<close>

text \<open>
  What \<open>JSON.parse\<close> returns, and \<open>undefined\<close> for what a property access or an
  object literal adds to it. A number is a rational: the handlers modelled below compare
  and copy numbers and never calculate with them. An object is the list of its own
  properties in enumeration order, each key once.
\<close>

datatype jsval =
    JUndefined
  | JNull
  | JBool bool
  | JNum rat
  | JStr string
  | JArr "jsval list"
  | JObj "(string \<times> jsval) list"

fun truthy :: "jsval \<Rightarrow> bool" where
  "truthy JUndefined = False"
| "truthy JNull = False"
| "truthy (JBool b) = b"
| "truthy (JNum n) = (n \<noteq> 0)"
| "truthy (JStr s) = (s \<noteq> [])"
| "truthy (JArr xs) = True"
| "truthy (JObj kvs) = True"

definition nullish :: "jsval \<Rightarrow> bool" where
  "nullish v = (v = JUndefined \<or> v = JNull)"

text \<open>\<open>v.k\<close> for a value that is neither \<open>null\<close> nor \<open>undefined\<close> (there the access
  throws, which each caller writes out) and a key that is neither \<open>length\<close> nor an
  index: only an object has such a property.\<close>

fun get_prop :: "jsval \<Rightarrow> string \<Rightarrow> jsval" where
  "get_prop (JObj kvs) k = (case map_of kvs k of None \<Rightarrow> JUndefined | Some v \<Rightarrow> v)"
| "get_prop v k = JUndefined"

text \<open>\<open>k in v\<close> for an object or an array, under the same restriction on the key.\<close>

fun has_prop :: "string \<Rightarrow> jsval \<Rightarrow> bool" where
  "has_prop k (JObj kvs) = (k \<in> set (map fst kvs))"
| "has_prop k v = False"

fun typeof_object :: "jsval \<Rightarrow> bool" where
  "typeof_object JNull = True"
| "typeof_object (JArr xs) = True"
| "typeof_object (JObj kvs) = True"
| "typeof_object v = False"

fun typeof_number :: "jsval \<Rightarrow> bool" where
  "typeof_number (JNum n) = True"
| "typeof_number v = False"


fun join :: "string list \<Rightarrow> string \<Rightarrow> string" where
  "join [] sep = []"
| "join [x] sep = x"
| "join (x # y # ys) sep = x @ sep @ join (y # ys) sep"

text \<open>\<open>String(v)\<close>. The printing of a number is a primitive of the runtime and is
  passed in as \<open>nts\<close>.\<close>

fun String :: "(rat \<Rightarrow> string) \<Rightarrow> jsval \<Rightarrow> string" where
  "String nts JUndefined = ''undefined''"
| "String nts JNull = ''null''"
| "String nts (JBool b) = (if b then ''true'' else ''false'')"
| "String nts (JNum n) = nts n"
| "String nts (JStr s) = s"
| "String nts (JArr xs) =
     join (map (\<lambda>x. if x = JUndefined \<or> x = JNull then [] else String nts x) xs) '',''"
| "String nts (JObj kvs) = ''[object Object]''"

text \<open>The body as \<open>JSON.stringify\<close> puts it on the wire: a property whose value is
  \<open>undefined\<close> is left out, an \<open>undefined\<close> array element becomes \<open>null\<close>.\<close>

fun wire :: "jsval \<Rightarrow> jsval" where
  "wire (JArr xs) = JArr (map (\<lambda>x. if x = JUndefined then JNull else wire x) xs)"
| "wire (JObj kvs) =
     JObj (map (\<lambda>(k, v). (k, wire v)) (filter (\<lambda>(k, v). v \<noteq> JUndefined) kvs))"
| "wire v = v"

text \<open>Decimal digits of an array index.\<close>

fun dec :: "nat \<Rightarrow> string" where
  "dec n = (if n < 10 then [''0123456789'' ! n]
            else dec (n div 10) @ [''0123456789'' ! (n mod 10)])"

declare dec.simps [simp del]




section \<open>Requests and responses\<close>

text \<open>What the handlers read of a \<open>NextRequest\<close>: the path of \<open>nextUrl\<close>, the URL and
  its query, the structured cookies, the raw headers (names in lower case), and what
  \<open>request.json()\<close> gives: the parsed body, or the message of the error it throws.\<close>

record request =
  pathname :: string
  url :: string
  searchParams :: "(string \<times> string) list"
  cookies :: "(string \<times> string) list"
  headers :: "(string \<times> string) list"
  json :: "string + jsval"

definition cookies_get :: "request \<Rightarrow> string \<Rightarrow> string option" where
  "cookies_get r name = map_of (cookies r) name"

definition headers_get :: "request \<Rightarrow> string \<Rightarrow> string option" where
  "headers_get r name = map_of (headers r) name"


record set_cookie =
  cookie_name :: string
  cookie_value :: string
  httpOnly :: "bool option"
  sameSite :: "string option"
  maxAge :: "nat option"
  path :: "string option"
  secure :: "bool option"

record http_response =
  status :: nat
  body :: jsval
  set_cookies :: "set_cookie list"

definition NextResponse_json :: "jsval \<Rightarrow> nat \<Rightarrow> http_response" where
  "NextResponse_json b st = \<lparr>status = st, body = wire b, set_cookies = []\<rparr>"

text \<open>\<open>Response.json\<close> throws for a status outside 200..599 and for a status that
  allows no body.\<close>

definition init_status_ok :: "nat \<Rightarrow> bool" where
  "init_status_ok st = (200 \<le> st \<and> st \<le> 599 \<and> st \<notin> {204, 205, 304})"

text \<open>How \<open>await fetch(...)\<close> ends: it rejects, or it resolves to a response, of which
  the handlers read the status, the \<open>content-type\<close> header and \<open>response.json()\<close>
  (\<open>None\<close> when the body does not parse).\<close>

datatype fetch_result =
    Rejected
  | Response nat "string option" "jsval option"

definition response_ok :: "nat \<Rightarrow> bool" where
  "response_ok st = (200 \<le> st \<and> st \<le> 299)"

text \<open>\<open>contentType?.includes("application/json")\<close>, read as a condition.\<close>

definition is_json :: "string option \<Rightarrow> bool" where
  "is_json contentType =
     (case contentType of None \<Rightarrow> False | Some c \<Rightarrow> includes_str c ''application/json'')"

text \<open>How a \<open>try\<close> block ends: with a \<open>return\<close>, with an exception, or by running to
  its end.\<close>

datatype 'a completion = Returned 'a | Thrown | Completed

section \<open>The Session Gate\<close>

datatype gate_response =
    Next "set_cookie list"
  | Redirect string

text \<open>\<open>!role\<close> for \<open>role: string | undefined | null\<close>.\<close>

definition no_role :: "string option \<Rightarrow> bool" where
  "no_role role = (case role of None \<Rightarrow> True | Some v \<Rightarrow> v = [])"

definition not_admin :: "string option \<Rightarrow> bool" where
  "not_admin role = (case role of None \<Rightarrow> True | Some v \<Rightarrow> v = [] \<or> toLowerCase v \<noteq> ''admin'')"

text \<open>The gate of \<open>middleware.ts\<close>, lines 4 to 26: no clearing on the entry route, and the
  raw \<open>Cookie\<close> header as a second source of the role.\<close>

definition middleware :: "request \<Rightarrow> gate_response" where
  "middleware request =
     (if startsWith (pathname request) ''/admin'' then
        (let role = cookies_get request ''user_role'';
             role = (if no_role role then
                       (case headers_get request ''cookie'' of
                          None \<Rightarrow> None
                        | Some cookieHeader \<Rightarrow>
                            (case match_user_role False cookieHeader of
                               None \<Rightarrow> None
                             | Some m \<Rightarrow> Some (trim m)))
                     else role)
         in if not_admin role then Redirect ''/'' else Next [])
      else Next [])"

definition config_matcher :: "string list" where
  "config_matcher = [''/admin'', ''/admin/:path*'']"

text \<open>The second gate kept in the same file, lines 30 to 53: it empties the cookie on the
  entry route and reads the role from the structured cookies alone.\<close>

definition middleware_clearing :: "request \<Rightarrow> gate_response" where
  "middleware_clearing request =
     (if pathname request = ''/'' then
        Next [\<lparr>cookie_name = ''user_role'', cookie_value = '''', httpOnly = None,
               sameSite = None, maxAge = Some 0, path = Some ''/'', secure = None\<rparr>]
      else if startsWith (pathname request) ''/admin'' then
        (let role = cookies_get request ''user_role''
         in if not_admin role then Redirect ''/'' else Next [])
      else Next [])"

definition config_matcher_clearing :: "string list" where
  "config_matcher_clearing = [''/'', ''/admin'', ''/admin/:path*'']"



section \<open>The Session Issuer\<close>

definition DEMO_DOCTOR_ID :: string where
  "DEMO_DOCTOR_ID = ''123456''"

definition DEMO_PASSWORD :: string where
  "DEMO_PASSWORD = ''password''"

definition session_cookie :: "string \<Rightarrow> bool option \<Rightarrow> set_cookie" where
  "session_cookie role sec =
     \<lparr>cookie_name = ''user_role'', cookie_value = role, httpOnly = Some True,
      sameSite = Some ''lax'', maxAge = Some (60 * 60 * 24), path = Some ''/'', secure = sec\<rparr>"

text \<open>The response built twice in the handler for the demo pair, at lines 118 to 125 and
  at lines 140 to 147.\<close>

definition demo_session :: http_response where
  "demo_session =
     (NextResponse_json (JObj [(''success'', JBool True), (''role'', JStr ''Doctor'')]) 200)
       \<lparr>set_cookies := [session_cookie ''Doctor'' None]\<rparr>"

definition isSecure :: "request \<Rightarrow> bool" where
  "isSecure request =
     (startsWith (url request) ''https://'' \<or> headers_get request ''x-forwarded-proto'' = Some ''https'')"

text \<open>\<open>detail\<close> of lines 127 to 131.\<close>

definition error_detail :: "jsval \<Rightarrow> jsval" where
  "error_detail data =
     (case get_prop data ''detail'' of
        JArr ds \<Rightarrow> (case ds of [] \<Rightarrow> JUndefined
                   | x # xs \<Rightarrow> if nullish x then JUndefined else get_prop x ''msg'')
      | JStr s \<Rightarrow> JStr s
      | _ \<Rightarrow> JNull)"

text \<open>The inner \<open>try\<close> block, lines 80 to 137, from the result of \<open>fetch\<close> on.\<close>

definition login_try :: "request \<Rightarrow> string \<Rightarrow> string \<Rightarrow> fetch_result \<Rightarrow> http_response completion" where
  "login_try request doctorIdStr passwordStr result =
     (case result of
        Rejected \<Rightarrow> Thrown
      | Response st contentType parsed \<Rightarrow>
          (let isJson = is_json contentType
           in case (if isJson then parsed else Some (JObj [])) of
                None \<Rightarrow> Thrown
              | Some data \<Rightarrow>
                  if response_ok st \<and> isJson then
                    (if nullish data then Thrown
                     else case (if truthy (get_prop data ''role'') then get_prop data ''role''
                                else JStr ''Doctor'') of
                            JStr rawRole \<Rightarrow>
                              (let role = (if toLowerCase rawRole = ''admin'' then ''Admin'' else rawRole)
                               in Returned
                                    ((NextResponse_json
                                        (JObj [(''success'', JBool True),
                                               (''role'', JStr role),
                                               (''access_token'', get_prop data ''access_token''),
                                               (''refresh_token'', get_prop data ''refresh_token''),
                                               (''token_type'', get_prop data ''token_type''),
                                               (''expires_in'', get_prop data ''expires_in'')]) 200)
                                       \<lparr>set_cookies := [session_cookie role (Some (isSecure request))]\<rparr>))
                          | _ \<Rightarrow> Thrown)
                  else if \<not> response_ok st then
                    (if doctorIdStr = DEMO_DOCTOR_ID \<and> passwordStr = DEMO_PASSWORD then
                       Returned demo_session
                     else if nullish data then Thrown
                     else
                       (let detail = error_detail data;
                            errorMsg =
                              (if st = 422 then
                                 (if truthy detail then detail
                                  else JStr ''Doctor ID must be exactly 6 digits and password is required.'')
                               else
                                 (if truthy detail then detail else JStr ''Incorrect ID or password.''))
                        in if init_status_ok st then
                             Returned (NextResponse_json
                                         (JObj [(''success'', JBool False), (''error'', errorMsg)]) st)
                           else Thrown))
                  else Completed))"

text \<open>What the handler did: the bodies it sent to the backend's \<open>/login\<close>, in order, and
  its response.\<close>

record login_result =
  backend_calls :: "(string \<times> string) list"
  reply :: http_response

text \<open>\<open>POST\<close> of the login route, lines 63 to 163. \<open>fetch\<close> maps the pair
  \<open>(doctor_id, password)\<close> sent to the backend to how the call ends.\<close>

definition POST_login ::
  "(rat \<Rightarrow> string) \<Rightarrow> (string \<times> string \<Rightarrow> fetch_result) \<Rightarrow> request \<Rightarrow> login_result" where
  "POST_login nts fetch request =
     (case json request of
        Inl e \<Rightarrow>
          \<lparr>backend_calls = [],
           reply = NextResponse_json
                     (JObj [(''success'', JBool False), (''error'', JStr ''Authentication failed'')]) 500\<rparr>
      | Inr b \<Rightarrow>
          (let b = (if nullish b then JObj [] else b);
               doctor_id = get_prop b ''doctor_id'';
               password = get_prop b ''password''
           in if \<not> truthy doctor_id \<or> password = JUndefined then
                \<lparr>backend_calls = [],
                 reply = NextResponse_json
                           (JObj [(''success'', JBool False),
                                  (''error'', JStr ''Doctor ID and password are required'')]) 400\<rparr>
              else
                (let doctorIdStr = trim (String nts doctor_id);
                     passwordStr = (case password of JStr s \<Rightarrow> s | _ \<Rightarrow> [])
                 in \<lparr>backend_calls = [(doctorIdStr, passwordStr)],
                     reply =
                       (case login_try request doctorIdStr passwordStr (fetch (doctorIdStr, passwordStr)) of
                          Returned r \<Rightarrow> r
                        | Thrown \<Rightarrow>
                            if doctorIdStr = DEMO_DOCTOR_ID \<and> passwordStr = DEMO_PASSWORD then
                              demo_session
                            else
                              NextResponse_json
                                (JObj [(''success'', JBool False),
                                       (''error'', JStr ''Login service unavailable. Is the backend running on port 8000?'')])
                                503
                        | Completed \<Rightarrow>
                            NextResponse_json
                              (JObj [(''success'', JBool False), (''error'', JStr ''Authentication failed'')])
                              401)\<rparr>)))"

section \<open>The Resource Proxy\<close>






section \<open>The Prediction Proxy\<close>

definition normalizePrediction :: "jsval \<Rightarrow> jsval" where
  "normalizePrediction data =
     (if truthy data \<and> typeof_object data \<and> has_prop ''resistant'' data then
        (let r = get_prop data ''resistant'';
             resistant = (if r = JBool True \<or> r = JNum 1 then JNum 1 else JNum 0);
             probability =
               (if typeof_number (get_prop data ''probability'') then get_prop data ''probability''
                else if typeof_number (get_prop data ''confidence'') then get_prop data ''confidence''
                else JUndefined)
         in JObj [(''resistant'', resistant), (''probability'', probability)])
      else JObj [(''resistant'', JNum 0), (''probability'', JUndefined)])"

text \<open>
  The response of the predict route: one made by the handler out of values it has, or
  \<open>NextResponse.json(mockPrediction(body))\<close>. The mock's numbers come from IEEE double
  arithmetic and \<open>Math.random()\<close>; they are not interpreted here, and \<open>Mocked body\<close>
  records that the mock was called with the request body.
\<close>

datatype predict_response =
    Served http_response
  | Mocked jsval

text \<open>\<open>POST\<close> of the predict route, lines 386 to 420. \<open>fetch\<close> maps the body sent to the
  backend's \<open>/predict\<close> to how the call ends.\<close>

definition POST_predict :: "(jsval \<Rightarrow> fetch_result) \<Rightarrow> request \<Rightarrow> predict_response" where
  "POST_predict fetch request =
     (case json request of
        Inl message \<Rightarrow> Served (NextResponse_json (JObj [(''error'', JStr message)]) 500)
      | Inr b \<Rightarrow>
          (case fetch b of
             Rejected \<Rightarrow> Mocked b
           | Response st contentType parsed \<Rightarrow>
               (let isJson = is_json contentType
                in if response_ok st \<and> isJson then
                     (case parsed of
                        None \<Rightarrow> Mocked b
                      | Some data \<Rightarrow> Served (NextResponse_json (normalizePrediction data) 200))
                   else if \<not> response_ok st \<or> \<not> isJson then Mocked b
                   else Mocked b)))"

section \<open>Properties of the Session Gate\<close>

text \<open>
  C2, as the claim states it, fails on the gate of lines 4 to 26: a request to the entry
  route that carries an \<open>Admin\<close> session goes on with no cookie set in the response.
\<close>

theorem entry_route_counterexample:
  "middleware \<lparr>pathname = ''/'', url = ''http://localhost:3000/'', searchParams = [],
      cookies = [(''user_role'', ''Admin'')], headers = [(''cookie'', ''user_role=Admin'')],
      json = Inl ''''\<rparr> = Next []"
  by (simp add: middleware_def startsWith_def)

text \<open>
  C2, amended: the gate of lines 30 to 53, whose matcher lists the entry route, answers
  every request to \<open>/\<close> by going on with the \<open>user_role\<close> cookie set to the empty value,
  path \<open>/\<close> and max-age 0, whatever the request carries. The gate of lines 4 to 26 is not
  registered for \<open>/\<close> and goes on without a cookie.
\<close>

theorem entry_route_clearing:
  "pathname request = ''/'' \<Longrightarrow>
     middleware_clearing request =
       Next [\<lparr>cookie_name = ''user_role'', cookie_value = '''', httpOnly = None, sameSite = None,
              maxAge = Some 0, path = Some ''/'', secure = None\<rparr>]
     \<and> ''/'' \<in> set config_matcher_clearing
     \<and> middleware request = Next []
     \<and> ''/'' \<notin> set config_matcher"
  by (simp add: middleware_clearing_def middleware_def startsWith_def
      config_matcher_clearing_def config_matcher_def)

theorem entry_route_clearing_witness:
  "middleware_clearing \<lparr>pathname = ''/'', url = ''http://localhost:3000/'', searchParams = [],
      cookies = [(''user_role'', ''Admin'')], headers = [(''cookie'', ''user_role=Admin'')],
      json = Inl ''''\<rparr>
   = Next [\<lparr>cookie_name = ''user_role'', cookie_value = '''', httpOnly = None, sameSite = None,
            maxAge = Some 0, path = Some ''/'', secure = None\<rparr>]"
  using entry_route_clearing [of "\<lparr>pathname = ''/'', url = ''http://localhost:3000/'',
      searchParams = [], cookies = [(''user_role'', ''Admin'')],
      headers = [(''cookie'', ''user_role=Admin'')], json = Inl ''''\<rparr>"]
  by simp







section \<open>Properties of the Prediction Proxy\<close>

text \<open>
  C9: when the backend answers \<open>/predict\<close> with a 2xx status and a JSON body that is not
  an object with a \<open>resistant\<close> key, the handler answers 200 with the body
  \<open>{resistant: 0}\<close>, no \<open>probability\<close> in it; it neither calls the mock nor answers
  with an error.
\<close>

theorem malformed_success_not_resistant:
  assumes "json request = Inr b"
    and "fetch b = Response st contentType (Some data)"
    and "200 \<le> st \<and> st \<le> 299"
    and "is_json contentType"
    and "\<not> (\<exists>kvs. data = JObj kvs \<and> ''resistant'' \<in> fst ` set kvs)"
  shows "POST_predict fetch request =
           Served \<lparr>status = 200, body = JObj [(''resistant'', JNum 0)], set_cookies = []\<rparr>"
proof -
  have guard: "(truthy data \<and> typeof_object data \<and> has_prop ''resistant'' data) = False"
    using assms(5) by (cases data) auto
  have "normalizePrediction data = JObj [(''resistant'', JNum 0), (''probability'', JUndefined)]"
    by (simp only: normalizePrediction_def guard if_False)
  then show ?thesis
    using assms(1-4) by (simp add: POST_predict_def response_ok_def NextResponse_json_def)
qed

theorem malformed_success_not_resistant_witness:
  "POST_predict (\<lambda>b. Response 200 (Some ''application/json; charset=utf-8'')
                        (Some (JObj [(''confidence'', JNum (8 / 10))])))
     \<lparr>pathname = ''/api/predict'', url = ''http://localhost:3000/api/predict'',
      searchParams = [], cookies = [], headers = [],
      json = Inr (JObj [(''age'', JNum 80), (''duration_days'', JNum 30)])\<rparr>
   = Served \<lparr>status = 200, body = JObj [(''resistant'', JNum 0)], set_cookies = []\<rparr>"
proof -
  have j: "is_json (Some ''application/json; charset=utf-8'')"
    by (simp add: is_json_def startsWith_def)
  show ?thesis
    using j malformed_success_not_resistant
      [where request = "\<lparr>pathname = ''/api/predict'', url = ''http://localhost:3000/api/predict'',
          searchParams = [], cookies = [], headers = [],
          json = Inr (JObj [(''age'', JNum 80), (''duration_days'', JNum 30)])\<rparr>"
        and b = "JObj [(''age'', JNum 80), (''duration_days'', JNum 30)]"
        and fetch = "\<lambda>b. Response 200 (Some ''application/json; charset=utf-8'')
                        (Some (JObj [(''confidence'', JNum (8 / 10))]))"
        and st = 200
        and contentType = "Some ''application/json; charset=utf-8''"
        and data = "JObj [(''confidence'', JNum (8 / 10))]"]
    by simp
qed





text \<open>The mock answers whenever the call to the backend rejects, resolves to a status
  outside 200..299, or resolves without a JSON body that parses.\<close>

lemma mock_fallback_routing:
  assumes "json request = Inr b"
    and "fetch b = Rejected
         \<or> (\<exists>st contentType parsed.
               fetch b = Response st contentType parsed
               \<and> (\<not> (200 \<le> st \<and> st \<le> 299) \<or> \<not> is_json contentType \<or> parsed = None))"
  shows "POST_predict fetch request = Mocked b"
  using assms by (auto simp: POST_predict_def response_ok_def Let_def)

section \<open>Properties of the Session Issuer\<close>

lemma trim_demo: "trim ''123456'' = ''123456''"
  by (simp add: trim_def js_space_def)

text \<open>
  C3: when the body carries the demo id and the demo password, and the call to the backend
  rejects or resolves to a status outside 200..299, the handler answers 200 with the body
  \<open>{success: true, role: "Doctor"}\<close> and sets the cookie \<open>user_role\<close> to \<open>Doctor\<close>.
\<close>

theorem demo_fallback:
  assumes "json request = Inr b"
    and "get_prop b ''doctor_id'' = JStr DEMO_DOCTOR_ID"
    and "get_prop b ''password'' = JStr DEMO_PASSWORD"
    and "fetch (DEMO_DOCTOR_ID, DEMO_PASSWORD) = Rejected
         \<or> (\<exists>st contentType parsed.
               fetch (DEMO_DOCTOR_ID, DEMO_PASSWORD) = Response st contentType parsed
               \<and> \<not> (200 \<le> st \<and> st \<le> 299))"
  shows "reply (POST_login nts fetch request) =
           \<lparr>status = 200,
            body = JObj [(''success'', JBool True), (''role'', JStr ''Doctor'')],
            set_cookies = [\<lparr>cookie_name = ''user_role'', cookie_value = ''Doctor'',
                             httpOnly = Some True, sameSite = Some ''lax'', maxAge = Some 86400,
                             path = Some ''/'', secure = None\<rparr>]\<rparr>"
proof -
  have nn: "\<not> nullish b"
    using assms(2) by (auto simp: nullish_def)
  have d: "demo_session = \<lparr>status = 200,
            body = JObj [(''success'', JBool True), (''role'', JStr ''Doctor'')],
            set_cookies = [\<lparr>cookie_name = ''user_role'', cookie_value = ''Doctor'',
                             httpOnly = Some True, sameSite = Some ''lax'', maxAge = Some 86400,
                             path = Some ''/'', secure = None\<rparr>]\<rparr>"
    by (simp add: demo_session_def NextResponse_json_def session_cookie_def)
  have t: "login_try request DEMO_DOCTOR_ID DEMO_PASSWORD (fetch (DEMO_DOCTOR_ID, DEMO_PASSWORD))
             \<in> {Thrown, Returned demo_session}"
    using assms(4)
    by (auto simp: login_try_def response_ok_def Let_def split: option.splits if_splits)
  have "reply (POST_login nts fetch request) =
          (case login_try request DEMO_DOCTOR_ID DEMO_PASSWORD (fetch (DEMO_DOCTOR_ID, DEMO_PASSWORD)) of
             Returned r \<Rightarrow> r | Thrown \<Rightarrow> demo_session
           | Completed \<Rightarrow> NextResponse_json
                              (JObj [(''success'', JBool False), (''error'', JStr ''Authentication failed'')])
                              401)"
    using assms(1-3) nn trim_demo
    by (simp add: POST_login_def Let_def DEMO_DOCTOR_ID_def DEMO_PASSWORD_def)
  then show ?thesis
    using t d by auto
qed

theorem demo_fallback_witness:
  "reply (POST_login (\<lambda>q. dec (nat \<lfloor>q\<rfloor>))
            (\<lambda>p. Response 401 (Some ''application/json'')
                    (Some (JObj [(''detail'', JStr ''Incorrect ID or password'')])))
            \<lparr>pathname = ''/api/login'', url = ''http://localhost:3000/api/login'',
             searchParams = [], cookies = [], headers = [],
             json = Inr (JObj [(''doctor_id'', JStr ''123456''), (''password'', JStr ''password'')])\<rparr>)
   = \<lparr>status = 200,
      body = JObj [(''success'', JBool True), (''role'', JStr ''Doctor'')],
      set_cookies = [\<lparr>cookie_name = ''user_role'', cookie_value = ''Doctor'',
                       httpOnly = Some True, sameSite = Some ''lax'', maxAge = Some 86400,
                       path = Some ''/'', secure = None\<rparr>]\<rparr>"
  using demo_fallback
    [where request = "\<lparr>pathname = ''/api/login'', url = ''http://localhost:3000/api/login'',
             searchParams = [], cookies = [], headers = [],
             json = Inr (JObj [(''doctor_id'', JStr ''123456''), (''password'', JStr ''password'')])\<rparr>"
      and b = "JObj [(''doctor_id'', JStr ''123456''), (''password'', JStr ''password'')]"
      and fetch = "\<lambda>p. Response 401 (Some ''application/json'')
                    (Some (JObj [(''detail'', JStr ''Incorrect ID or password'')]))"
      and nts = "\<lambda>q. dec (nat \<lfloor>q\<rfloor>)"]
  by (simp add: DEMO_DOCTOR_ID_def DEMO_PASSWORD_def)



text \<open>
  C10: a \<open>doctor_id\<close> that is present and is the empty string, the number 0, \<open>false\<close>
  or \<open>null\<close> is answered with status 400 and no call to the backend, which is also the
  answer to the same body without the key.
\<close>

theorem falsy_doctor_id_rejected:
  assumes "json request = Inr (JObj kvs)"
    and "map_of kvs ''doctor_id'' = Some v"
    and "v \<in> {JStr '''', JNum 0, JBool False, JNull}"
  shows "POST_login nts fetch request =
           \<lparr>backend_calls = [],
            reply = \<lparr>status = 400,
                     body = JObj [(''success'', JBool False),
                                  (''error'', JStr ''Doctor ID and password are required'')],
                     set_cookies = []\<rparr>\<rparr>
         \<and> POST_login nts fetch request =
             POST_login nts fetch
               (request\<lparr>json := Inr (JObj (filter (\<lambda>kv. fst kv \<noteq> ''doctor_id'') kvs))\<rparr>)"
proof -
  have "map_of (filter (\<lambda>kv. fst kv \<noteq> ''doctor_id'') kvs) ''doctor_id'' = None"
    by (induction kvs) auto
  then show ?thesis
    using assms by (auto simp: POST_login_def NextResponse_json_def Let_def nullish_def)
qed

theorem falsy_doctor_id_rejected_witness:
  "POST_login (\<lambda>q. dec (nat \<lfloor>q\<rfloor>)) (\<lambda>p. Rejected)
     \<lparr>pathname = ''/api/login'', url = ''http://localhost:3000/api/login'',
      searchParams = [], cookies = [], headers = [],
      json = Inr (JObj [(''doctor_id'', JNum 0), (''password'', JStr ''password'')])\<rparr>
   = \<lparr>backend_calls = [],
      reply = \<lparr>status = 400,
               body = JObj [(''success'', JBool False),
                            (''error'', JStr ''Doctor ID and password are required'')],
               set_cookies = []\<rparr>\<rparr>"
  using falsy_doctor_id_rejected
    [where request = "\<lparr>pathname = ''/api/login'', url = ''http://localhost:3000/api/login'',
             searchParams = [], cookies = [], headers = [],
             json = Inr (JObj [(''doctor_id'', JNum 0), (''password'', JStr ''password'')])\<rparr>"
      and kvs = "[(''doctor_id'', JNum 0), (''password'', JStr ''password'')]"
      and v = "JNum 0"
      and fetch = "\<lambda>p. Rejected" and nts = "\<lambda>q. dec (nat \<lfloor>q\<rfloor>)"]
  by simp




section \<open>Properties of the Resource Proxy\<close>












end
